theory Spec2Isabelle
  imports Main "HOL-Library.Word"
begin

section \<open>The chaincode: SoftwareRelease and SoftwareReleaseContract\<close>

text \<open>
  The ledger record of \<^verbatim>\<open>SoftwareRelease.java\<close>: five string fields. The status is a
  Java \<^verbatim>\<open>String\<close> (the source's comment: "ACTIVE" or "DISCONTINUED"), and it is a
  string here as well, so that what \<^verbatim>\<open>ValidateRelease\<close> does with any other value is
  visible.
\<close>

record SoftwareRelease =
  packageId :: string
  version :: string
  fileHash :: string
  status :: string
  publisher :: string

datatype ReleaseErrors =
  RELEASE_NOT_FOUND | RELEASE_ALREADY_EXISTS | INVALID_HASH | RELEASE_DISCONTINUED

text \<open>\<^verbatim>\<open>new ChaincodeException(errorMessage, code)\<close>.\<close>

datatype ChaincodeException = ChaincodeException string ReleaseErrors

text \<open>
  The world state behind \<^verbatim>\<open>ctx.getStub()\<close>. The contract stores the Genson
  serialisation of a release under a string key and reads it back with
  \<^verbatim>\<open>genson.deserialize\<close>; the map holds the record itself. A key that was never
  written reads as null or the empty string in the source, which is \<open>None\<close> here (the
  serialisation of a release is never empty).
\<close>

type_synonym world_state = "string \<rightharpoonup> SoftwareRelease"

definition createKey :: "string \<Rightarrow> string \<Rightarrow> string" where
  "createKey pid ver = pid @ '':'' @ ver"

definition ReleaseExists :: "world_state \<Rightarrow> string \<Rightarrow> bool" where
  "ReleaseExists ws key = (case ws key of None \<Rightarrow> False | Some _ \<Rightarrow> True)"

definition getRelease :: "world_state \<Rightarrow> string \<Rightarrow> ChaincodeException + SoftwareRelease" where
  "getRelease ws key =
     (case ws key of
        None \<Rightarrow> Inl (ChaincodeException (''Release not found for key: '' @ key) RELEASE_NOT_FOUND)
      | Some release \<Rightarrow> Inr release)"

text \<open>
  A transaction returns its result and the world state after it. A transaction that
  throws writes nothing: in each one below the throw comes before the only
  \<^verbatim>\<open>putStringState\<close>. The second argument of \<open>PublishRelease\<close> is
  \<^verbatim>\<open>ctx.getClientIdentity().getMSPID()\<close>.
\<close>

definition PublishRelease ::
  "world_state \<Rightarrow> string \<Rightarrow> string \<Rightarrow> string \<Rightarrow> string
     \<Rightarrow> (ChaincodeException + SoftwareRelease) \<times> world_state" where
  "PublishRelease ws mspid pid ver hash =
     (let key = createKey pid ver in
      if ReleaseExists ws key
      then (Inl (ChaincodeException
                   (''Release '' @ pid @ '' version '' @ ver @ '' already exists'')
                   RELEASE_ALREADY_EXISTS), ws)
      else
        (let release = \<lparr>packageId = pid, version = ver, fileHash = hash,
                          status = ''ACTIVE'', publisher = mspid\<rparr>
         in (Inr release, ws(key \<mapsto> release))))"

definition DiscontinueRelease ::
  "world_state \<Rightarrow> string \<Rightarrow> string \<Rightarrow> (ChaincodeException + SoftwareRelease) \<times> world_state" where
  "DiscontinueRelease ws pid ver =
     (let key = createKey pid ver in
      case getRelease ws key of
        Inl e \<Rightarrow> (Inl e, ws)
      | Inr release \<Rightarrow>
          (let release' = release\<lparr>status := ''DISCONTINUED''\<rparr>
           in (Inr release', ws(key \<mapsto> release'))))"

definition ValidateRelease ::
  "world_state \<Rightarrow> string \<Rightarrow> string \<Rightarrow> string \<Rightarrow> ChaincodeException + bool" where
  "ValidateRelease ws pid ver hash =
     (let key = createKey pid ver in
      if \<not> ReleaseExists ws key then Inr False
      else
        (case getRelease ws key of
           Inl e \<Rightarrow> Inl e
         | Inr release \<Rightarrow>
             if fileHash release \<noteq> hash then Inr False
             else if status release = ''DISCONTINUED'' then Inr False
             else Inr True))"

definition GetRelease :: "world_state \<Rightarrow> string \<Rightarrow> string \<Rightarrow> ChaincodeException + SoftwareRelease" where
  "GetRelease ws pid ver = getRelease ws (createKey pid ver)"

subsection \<open>Sequences of submitted transactions\<close>

text \<open>
  The two transactions that write (\<^verbatim>\<open>Transaction.TYPE.SUBMIT\<close>), with their
  arguments; \<open>Publish\<close> carries the submitter's MSP id first.
\<close>

datatype submit = Publish string string string string | Discontinue string string

fun commit :: "world_state \<Rightarrow> submit \<Rightarrow> world_state" where
  "commit ws (Publish mspid pid ver hash) = snd (PublishRelease ws mspid pid ver hash)"
| "commit ws (Discontinue pid ver) = snd (DiscontinueRelease ws pid ver)"

text \<open>The world states a ledger passes through, the starting one first.\<close>

fun history :: "world_state \<Rightarrow> submit list \<Rightarrow> world_state list" where
  "history ws [] = [ws]"
| "history ws (t # ts) = ws # history (commit ws t) ts"

text \<open>The ledgers this contract can produce, from the empty one.\<close>

inductive reachable :: "world_state \<Rightarrow> bool" where
  genesis: "reachable Map.empty"
| submitted: "reachable ws \<Longrightarrow> reachable (commit ws t)"

definition status_at :: "world_state \<Rightarrow> string \<Rightarrow> string option" where
  "status_at ws key = map_option status (ws key)"

text \<open>
  The state machine of a key: [absent] to ACTIVE, ACTIVE to DISCONTINUED, and staying
  where one is (a rejected transaction, a transaction on another key, a repeated
  discontinue).
\<close>

definition transition :: "string option \<Rightarrow> string option \<Rightarrow> bool" where
  "transition a b =
     (a = b \<or> (a = None \<and> b = Some ''ACTIVE'')
            \<or> (a = Some ''ACTIVE'' \<and> b = Some ''DISCONTINUED''))"

text \<open>A ledger with one published release, and the same ledger after its discontinuation.\<close>

definition one_release :: world_state where
  "one_release = commit Map.empty (Publish ''Org1MSP'' ''com.acme.lib'' ''1.0.0'' ''a'')"

definition retired_release :: world_state where
  "retired_release = commit one_release (Discontinue ''com.acme.lib'' ''1.0.0'')"

text \<open>Every record of the ledger is ACTIVE or DISCONTINUED.\<close>

definition statuses_ok :: "world_state \<Rightarrow> bool" where
  "statuses_ok ws =
     (\<forall>key release. ws key = Some release \<longrightarrow>
        status release = ''ACTIVE'' \<or> status release = ''DISCONTINUED'')"

section \<open>The application gateway\<close>

subsection \<open>State and collaborators\<close>

text \<open>A \<^verbatim>\<open>Buffer\<close> is a sequence of bytes.\<close>

type_synonym Buffer = "8 word list"

text \<open>The \<^verbatim>\<open>packages\<close> row of \<^verbatim>\<open>models/Package\<close>, without its two timestamps.\<close>

record Package =
  package_id :: string
  owner_id :: string
  name :: string
  description :: "string option"

text \<open>
  Everything the route handlers read and write:
  \<^item> \<open>ledger\<close>: the world state of the chaincode, reached through \<^verbatim>\<open>fabricNetwork\<close>;
  \<^item> \<open>storage\<close>: the regular files of the file system, each under its absolute,
    normalised path (the list of its segments below the root). Directories are not
    kept: a directory is there when a file lies below it, and whether an empty one
    exists changes nothing that the handlers do;
  \<^item> \<open>packages\<close>, \<open>subscriptions\<close> (user id, package id), \<open>users_email\<close> (user id to
    e-mail address) and \<open>download_logs\<close> (package id, version, user id, IP address):
    the tables of the relational store that the handlers below touch;
  \<^item> \<open>sent\<close>: the (address, subject) of every message handed to
    \<^verbatim>\<open>emailService.sendEmail\<close>, the latest first. \<^verbatim>\<open>sendEmail\<close> catches every
    delivery error and returns a boolean that no caller reads.
\<close>

record system =
  ledger :: world_state
  storage :: "string list \<rightharpoonup> Buffer"
  packages :: "string \<rightharpoonup> Package"
  subscriptions :: "(string \<times> string) list"
  users_email :: "string \<rightharpoonup> string"
  download_logs :: "(string \<times> string \<times> string option \<times> string option) list"
  sent :: "(string \<times> string) list"

text \<open>
  What a request meets outside the program:
  \<^item> \<open>mspId\<close>: the MSP id of the gateway's identity (\<^verbatim>\<open>config.mspId\<close>);
  \<^item> \<open>error_message\<close>: the \<^verbatim>\<open>message\<close> of the error with which the Fabric
    gateway client rejects a transaction whose chaincode threw the given exception
    (the client library's business, so a parameter);
  \<^item> \<open>storageDir\<close>: the private field of \<^verbatim>\<open>FileStorageService\<close>,
    \<^verbatim>\<open>path.resolve(baseDir)\<close>, an absolute normalised path;
  \<^item> \<open>write_error\<close>: whether the file system lets the write of \<^verbatim>\<open>saveFile\<close>
    (\<^verbatim>\<open>fs.mkdir\<close>, then \<^verbatim>\<open>fs.writeFile\<close>) through: \<open>None\<close>, or the message of
    the error it throws. \<open>written\<close> says what a write that fails leaves: \<open>None\<close> when
    it failed before the file was opened (the file, if there was one, is as it was),
    \<open>Some n\<close> when the file was opened, which creates or truncates it, and \<open>n\<close>
    bytes went in before the failure;
  \<^item> \<open>read_error\<close>: the message of the error of \<^verbatim>\<open>fs.readFile\<close>, other than
    that of a file that is not there, if it throws one;
  \<^item> \<open>rm_error\<close>: whether a recursive remove (\<^verbatim>\<open>fs.rm\<close>) goes through:
    \<open>None\<close>, or the message of the error it throws. A remove that fails has
    removed some files of the directory already: \<open>rm_removed\<close> says which;
  \<^item> \<open>foreign_key_message\<close>: the message of the database's error for an insert
    that violates a foreign key.

  The gateway is connected (\<^verbatim>\<open>fabricNetwork.connect()\<close> has run), a submitted
  transaction that does not throw is committed, the authenticated user has a row in
  \<^verbatim>\<open>users\<close>, and the queries of the relational store succeed, the foreign key of
  \<^verbatim>\<open>download_logs\<close> to \<^verbatim>\<open>packages\<close> apart.
\<close>

record environment =
  mspId :: string
  error_message :: "ChaincodeException \<Rightarrow> string"
  storageDir :: "string list"
  write_error :: "string option"
  written :: "nat option"
  read_error :: "string option"
  rm_error :: "string option"
  rm_removed :: "string list \<Rightarrow> bool"
  foreign_key_message :: string

text \<open>
  The body of a JSON response, by route: \<^verbatim>\<open>{error}\<close>; the \<^verbatim>\<open>package\<close> object of
  a successful upload (packageId, version, name, fileHash, size, downloadUrl);
  \<^verbatim>\<open>{valid, expectedHash, actualHash}\<close> (the \<^verbatim>\<open>message\<close> beside them is a function
  of \<open>valid\<close> and is left out); \<^verbatim>\<open>{message}\<close>. A response is a status code with
  such a body, or the file sent by the download route.
\<close>

datatype body =
  ErrorBody string
| PublishedBody string string string string nat string
| ValidationBody bool string string
| MessageBody string

datatype response = Json nat body | SendFile Buffer

subsection \<open>FileStorageService\<close>

text \<open>
  \<^verbatim>\<open>crypto.createHash('sha256').update(buffer).digest('hex')\<close> is Node's; it is the
  parameter \<open>sha256\<close> of everything that hashes, an arbitrary function from bytes to
  strings.
\<close>

definition calculateFileHash :: "(Buffer \<Rightarrow> string) \<Rightarrow> Buffer \<Rightarrow> string" where
  "calculateFileHash sha256 buffer = sha256 buffer"

text \<open>
  \<^verbatim>\<open>path.join\<close> on POSIX paths, from an absolute normalised path: the parts are
  cut at every slash, and segment after segment an empty one or \<^verbatim>\<open>.\<close> is
  skipped, \<^verbatim>\<open>..\<close> goes one directory up (the root is its own parent), any other
  is entered.
\<close>

fun segments :: "string \<Rightarrow> string list" where
  "segments [] = [[]]"
| "segments (c # cs) =
     (if c = CHR ''/'' then [] # segments cs
      else (case segments cs of [] \<Rightarrow> [[c]] | seg # rest \<Rightarrow> (c # seg) # rest))"

definition enter :: "string list \<Rightarrow> string \<Rightarrow> string list" where
  "enter dir seg =
     (if seg = [] \<or> seg = ''.'' then dir
      else if seg = ''..'' then butlast dir
      else dir @ [seg])"

definition path_join :: "string list \<Rightarrow> string list \<Rightarrow> string list" where
  "path_join dir parts = foldl enter dir (concat (map segments parts))"

definition getFilePath :: "environment \<Rightarrow> string \<Rightarrow> string \<Rightarrow> string list" where
  "getFilePath env pid ver = path_join (storageDir env) [pid, ver, ''package.tar.gz'']"

definition getVersionDir :: "environment \<Rightarrow> string \<Rightarrow> string \<Rightarrow> string list" where
  "getVersionDir env pid ver = path_join (storageDir env) [pid, ver]"

text \<open>The path is the directory or lies below it.\<close>

definition under :: "string list \<Rightarrow> string list \<Rightarrow> bool" where
  "under dir path = (take (length dir) path = dir)"

text \<open>
  \<open>saveFile\<close> returns \<^verbatim>\<open>{hash, size}\<close> (and the path, which no caller reads). Its
  \<^verbatim>\<open>catch\<close> wraps whatever \<^verbatim>\<open>fs.mkdir\<close> or \<^verbatim>\<open>fs.writeFile\<close> throws; the
  file is then as \<open>written env\<close> says.
\<close>

definition saveFile ::
  "(Buffer \<Rightarrow> string) \<Rightarrow> environment \<Rightarrow> string \<Rightarrow> string \<Rightarrow> Buffer \<Rightarrow> system
     \<Rightarrow> (string + string \<times> nat) \<times> system" where
  "saveFile sha256 env pid ver fileBuffer s =
     (let filePath = getFilePath env pid ver in
      case write_error env of
        Some msg \<Rightarrow>
          (Inl (''Failed to save file: '' @ msg),
           (case written env of
              None \<Rightarrow> s
            | Some n \<Rightarrow> s\<lparr>storage := (storage s)(filePath \<mapsto> take n fileBuffer)\<rparr>))
      | None \<Rightarrow>
          (let hash = calculateFileHash sha256 fileBuffer
           in (Inr (hash, length fileBuffer),
               s\<lparr>storage := (storage s)(filePath \<mapsto> fileBuffer)\<rparr>)))"

text \<open>
  \<open>getFile\<close>: \<^verbatim>\<open>ENOENT\<close> is the error of a file that is not there; any other
  error of the read is \<open>read_error env\<close>.
\<close>

definition getFile :: "environment \<Rightarrow> system \<Rightarrow> string \<Rightarrow> string \<Rightarrow> string + Buffer" where
  "getFile env s pid ver =
     (let filePath = getFilePath env pid ver in
      case read_error env of
        Some msg \<Rightarrow> Inl (''Failed to read file: '' @ msg)
      | None \<Rightarrow>
          (case storage s filePath of
             None \<Rightarrow> Inl (''Package file not found: '' @ pid @ ''@'' @ ver)
           | Some buffer \<Rightarrow> Inr buffer))"

text \<open>
  \<^verbatim>\<open>fs.rm(packageDir, {recursive, force})\<close> with
  \<^verbatim>\<open>packageDir = path.join(storageDir, packageId)\<close>: every file in or below the
  directory goes, and a directory that is not there is no error. When the remove
  throws, the files that it had removed by then are gone.
\<close>

definition deletePackage :: "environment \<Rightarrow> string \<Rightarrow> system \<Rightarrow> (string + unit) \<times> system" where
  "deletePackage env pid s =
     (let packageDir = path_join (storageDir env) [pid] in
      case rm_error env of
        Some msg \<Rightarrow>
          (Inl (''Failed to delete package: '' @ msg),
           s\<lparr>storage := (\<lambda>path. if under packageDir path \<and> rm_removed env path then None
                                 else storage s path)\<rparr>)
      | None \<Rightarrow>
          (Inr (), s\<lparr>storage := (\<lambda>path. if under packageDir path then None
                                         else storage s path)\<rparr>))"

text \<open>
  A name that is one path segment: not empty, not \<^verbatim>\<open>.\<close> or \<^verbatim>\<open>..\<close>, and
  without a slash. The upload route's pattern for a version admits only such names.
\<close>

definition plain :: "string \<Rightarrow> bool" where
  "plain seg = (seg \<noteq> [] \<and> seg \<noteq> ''.'' \<and> seg \<noteq> ''..'' \<and> CHR ''/'' \<notin> set seg)"

subsection \<open>FabricNetworkService\<close>

text \<open>
  \<^verbatim>\<open>submitTransaction\<close> and \<^verbatim>\<open>evaluateTransaction\<close> run the chaincode on the
  ledger; a \<^verbatim>\<open>ChaincodeException\<close> reaches the caller as a rejected promise, an
  error whose message is \<open>error_message env\<close> of the exception.
\<close>

definition fabric_publishRelease ::
  "environment \<Rightarrow> string \<Rightarrow> string \<Rightarrow> string \<Rightarrow> system \<Rightarrow> (string + unit) \<times> system" where
  "fabric_publishRelease env pid ver hash s =
     (case PublishRelease (ledger s) (mspId env) pid ver hash of
        (Inl e, ws) \<Rightarrow> (Inl (error_message env e), s)
      | (Inr release, ws) \<Rightarrow> (Inr (), s\<lparr>ledger := ws\<rparr>))"

definition fabric_getRelease ::
  "environment \<Rightarrow> system \<Rightarrow> string \<Rightarrow> string \<Rightarrow> string + SoftwareRelease" where
  "fabric_getRelease env s pid ver =
     (case GetRelease (ledger s) pid ver of
        Inl e \<Rightarrow> Inl (error_message env e)
      | Inr release \<Rightarrow> Inr release)"

definition fabric_validateRelease ::
  "environment \<Rightarrow> system \<Rightarrow> string \<Rightarrow> string \<Rightarrow> string \<Rightarrow> string + bool" where
  "fabric_validateRelease env s pid ver hash =
     (case ValidateRelease (ledger s) pid ver hash of
        Inl e \<Rightarrow> Inl (error_message env e)
      | Inr result \<Rightarrow> Inr result)"

definition fabric_discontinueRelease ::
  "environment \<Rightarrow> string \<Rightarrow> string \<Rightarrow> system \<Rightarrow> (string + unit) \<times> system" where
  "fabric_discontinueRelease env pid ver s =
     (case DiscontinueRelease (ledger s) pid ver of
        (Inl e, ws) \<Rightarrow> (Inl (error_message env e), s)
      | (Inr release, ws) \<Rightarrow> (Inr (), s\<lparr>ledger := ws\<rparr>))"

subsection \<open>PackageModel, SubscriptionModel, DownloadLogModel\<close>

definition PackageModel_findById :: "system \<Rightarrow> string \<Rightarrow> Package option" where
  "PackageModel_findById s pid = packages s pid"

definition PackageModel_create :: "Package \<Rightarrow> system \<Rightarrow> Package \<times> system" where
  "PackageModel_create input s = (input, s\<lparr>packages := (packages s)(package_id input \<mapsto> input)\<rparr>)"

text \<open>
  \<^verbatim>\<open>DELETE FROM packages WHERE package_id = $1\<close>. The tables \<^verbatim>\<open>subscriptions\<close> and
  \<^verbatim>\<open>download_logs\<close> reference \<^verbatim>\<open>packages(package_id) ON DELETE CASCADE\<close>
  (the migrations), so their rows for the package go with it.
\<close>

definition PackageModel_delete :: "string \<Rightarrow> system \<Rightarrow> system" where
  "PackageModel_delete pid s =
     s\<lparr>packages := (packages s)(pid := None),
       subscriptions := filter (\<lambda>(u, p). p \<noteq> pid) (subscriptions s),
       download_logs := filter (\<lambda>(p, v, u, ip). p \<noteq> pid) (download_logs s)\<rparr>"

definition getSubscribersByPackage :: "system \<Rightarrow> string \<Rightarrow> string list" where
  "getSubscribersByPackage s pid = map fst (filter (\<lambda>(u, p). p = pid) (subscriptions s))"

text \<open>
  The insert into \<^verbatim>\<open>download_logs\<close> violates the foreign key when the package has no
  row, and the query throws the database's error.
\<close>

definition DownloadLogModel_create ::
  "environment \<Rightarrow> string \<Rightarrow> string \<Rightarrow> string option \<Rightarrow> string option \<Rightarrow> system
     \<Rightarrow> (string + unit) \<times> system" where
  "DownloadLogModel_create env pid ver userId ipAddress s =
     (case packages s pid of
        None \<Rightarrow> (Inl (foreign_key_message env), s)
      | Some _ \<Rightarrow> (Inr (), s\<lparr>download_logs := (pid, ver, userId, ipAddress) # download_logs s\<rparr>))"

subsection \<open>NotificationService\<close>

text \<open>The loop over the subscriber ids: one message for each id that has a user row.\<close>

fun send_each :: "string \<Rightarrow> string list \<Rightarrow> system \<Rightarrow> system" where
  "send_each subject [] s = s"
| "send_each subject (userId # rest) s =
     (case users_email s userId of
        None \<Rightarrow> send_each subject rest s
      | Some email \<Rightarrow> send_each subject rest (s\<lparr>sent := (email, subject) # sent s\<rparr>))"

definition notifySubscribers :: "string \<Rightarrow> string \<Rightarrow> system \<Rightarrow> system" where
  "notifySubscribers pid ver s =
     (let subscriberIds = getSubscribersByPackage s pid in
      if subscriberIds = [] then s
      else
        (let packageName =
               (case PackageModel_findById s pid of
                  None \<Rightarrow> pid
                | Some pkg \<Rightarrow> if name pkg = [] then pid else name pkg)
         in send_each (''New Version: '' @ packageName @ '' '' @ ver) subscriberIds s))"

definition notifyVersionUpdate :: "string \<Rightarrow> string \<Rightarrow> system \<Rightarrow> system" where
  "notifyVersionUpdate pid ver s = notifySubscribers pid ver s"

definition notifyPackageDiscontinued :: "string \<Rightarrow> system \<Rightarrow> system" where
  "notifyPackageDiscontinued pid s =
     send_each (''Package Discontinued: '' @ pid) (getSubscribersByPackage s pid) s"

subsection \<open>The package routes\<close>

text \<open>\<^verbatim>\<open>req.user\<close>, as the authentication middleware sets it.\<close>

record TokenPayload =
  userId :: string
  role :: string

text \<open>
  \<^verbatim>\<open>POST /packages/upload\<close>, from saving the file on: what the handler does once the
  package row is resolved. Any exception ends in the handler's \<^verbatim>\<open>catch\<close>, which
  answers 500 with the message and undoes nothing.
\<close>

definition upload_publish ::
  "(Buffer \<Rightarrow> string) \<Rightarrow> environment \<Rightarrow> string \<Rightarrow> string \<Rightarrow> Buffer \<Rightarrow> Package \<Rightarrow> system
     \<Rightarrow> response \<times> system" where
  "upload_publish sha256 env pid ver buffer pkg s =
     (case saveFile sha256 env pid ver buffer s of
        (Inl msg, s1) \<Rightarrow> (Json 500 (ErrorBody msg), s1)
      | (Inr (hash, fileSize), s1) \<Rightarrow>
          (case fabric_publishRelease env pid ver hash s1 of
             (Inl msg, s2) \<Rightarrow> (Json 500 (ErrorBody msg), s2)
           | (Inr _, s2) \<Rightarrow>
               (Json 201 (PublishedBody pid ver (name pkg) hash fileSize
                            (''/packages/'' @ pid @ ''/'' @ ver @ ''/download-file'')),
                notifyVersionUpdate pid ver s2)))"

text \<open>
  The handler of \<^verbatim>\<open>POST /packages/upload\<close>: the authenticated user, the four body
  fields as the validators of the route leave them, \<^verbatim>\<open>req.file\<close>.
\<close>

definition upload_handler ::
  "(Buffer \<Rightarrow> string) \<Rightarrow> environment \<Rightarrow> TokenPayload \<Rightarrow> string \<Rightarrow> string \<Rightarrow> string
     \<Rightarrow> string option \<Rightarrow> Buffer option \<Rightarrow> system \<Rightarrow> response \<times> system" where
  "upload_handler sha256 env user pid ver nm descr file s =
     (case file of
        None \<Rightarrow> (Json 400 (ErrorBody ''No file uploaded''), s)
      | Some buffer \<Rightarrow>
          (case PackageModel_findById s pid of
             None \<Rightarrow>
               (case PackageModel_create
                       \<lparr>package_id = pid, owner_id = userId user, name = nm, description = descr\<rparr> s of
                  (pkg, s1) \<Rightarrow> upload_publish sha256 env pid ver buffer pkg s1)
           | Some pkg \<Rightarrow>
               if owner_id pkg \<noteq> userId user \<and> role user \<noteq> ''ADMIN''
               then (Json 403 (ErrorBody ''Only package owner can publish new versions''), s)
               else upload_publish sha256 env pid ver buffer pkg s))"

text \<open>\<^verbatim>\<open>String.prototype.includes\<close>.\<close>

fun str_includes :: "string \<Rightarrow> string \<Rightarrow> bool" where
  "str_includes [] sub = (sub = [])"
| "str_includes (c # cs) sub = (take (length sub) (c # cs) = sub \<or> str_includes cs sub)"

text \<open>The \<^verbatim>\<open>catch\<close> of the download route.\<close>

definition download_failed :: "string \<Rightarrow> response" where
  "download_failed msg =
     (if str_includes msg ''not found'' then Json 404 (ErrorBody ''Package file not found'')
      else Json 500 (ErrorBody msg))"

text \<open>
  The handler of \<^verbatim>\<open>GET /packages/:packageId/:version/download-file\<close>:
  \<^verbatim>\<open>req.user\<close> (optional), \<^verbatim>\<open>req.ip\<close>, the two path parameters.
\<close>

definition download_handler ::
  "environment \<Rightarrow> TokenPayload option \<Rightarrow> string option \<Rightarrow> string \<Rightarrow> string \<Rightarrow> system
     \<Rightarrow> response \<times> system" where
  "download_handler env user ip pid ver s =
     (case fabric_getRelease env s pid ver of
        Inl msg \<Rightarrow> (download_failed msg, s)
      | Inr release \<Rightarrow>
          if status release \<noteq> ''ACTIVE''
          then (Json 403 (ErrorBody (''Version '' @ ver @ '' is '' @ status release)), s)
          else
            (case getFile env s pid ver of
               Inl msg \<Rightarrow> (download_failed msg, s)
             | Inr fileBuffer \<Rightarrow>
                 (case DownloadLogModel_create env pid ver (map_option userId user) ip s of
                    (Inl msg, s1) \<Rightarrow> (download_failed msg, s1)
                  | (Inr _, s1) \<Rightarrow> (SendFile fileBuffer, s1))))"

text \<open>The handler of \<^verbatim>\<open>POST /packages/:packageId/:version/validate-file\<close>.\<close>

definition validate_file_handler ::
  "(Buffer \<Rightarrow> string) \<Rightarrow> environment \<Rightarrow> string \<Rightarrow> string \<Rightarrow> Buffer option \<Rightarrow> system
     \<Rightarrow> response \<times> system" where
  "validate_file_handler sha256 env pid ver file s =
     (case file of
        None \<Rightarrow> (Json 400 (ErrorBody ''No file uploaded for validation''), s)
      | Some buffer \<Rightarrow>
          (let uploadedHash = calculateFileHash sha256 buffer in
           case fabric_getRelease env s pid ver of
             Inl msg \<Rightarrow> (Json 500 (ErrorBody msg), s)
           | Inr release \<Rightarrow>
               (let expectedHash = fileHash release in
                case fabric_validateRelease env s pid ver uploadedHash of
                  Inl msg \<Rightarrow> (Json 500 (ErrorBody msg), s)
                | Inr valid \<Rightarrow> (Json 200 (ValidationBody valid expectedHash uploadedHash), s))))"

text \<open>The handler of \<^verbatim>\<open>DELETE /packages/:packageId\<close>.\<close>

definition delete_handler :: "environment \<Rightarrow> string \<Rightarrow> system \<Rightarrow> response \<times> system" where
  "delete_handler env pid s =
     (let s1 = PackageModel_delete pid s in
      case deletePackage env pid s1 of
        (Inl msg, s2) \<Rightarrow> (Json 500 (ErrorBody msg), s2)
      | (Inr _, s2) \<Rightarrow>
          (Json 200 (MessageBody ''Package discontinued successfully''),
           notifyPackageDiscontinued pid s2))"

subsection \<open>Concrete runs\<close>

text \<open>
  The theorems below hold for every digest function. The concrete runs need one that
  evaluates; this one tells buffers of different lengths apart, which is all they use.
\<close>

definition length_digest :: "Buffer \<Rightarrow> string" where
  "length_digest buffer = replicate (length buffer) (CHR ''a'')"

text \<open>A client that passes the chaincode's message on, and a file system in good order.\<close>

definition chaincode_message :: "ChaincodeException \<Rightarrow> string" where
  "chaincode_message e = (case e of ChaincodeException msg code \<Rightarrow> msg)"

definition org1 :: environment where
  "org1 = \<lparr>mspId = ''Org1MSP'', error_message = chaincode_message,
           storageDir = [''srv'', ''packages-storage''],
           write_error = None, written = None, read_error = None,
           rm_error = None, rm_removed = (\<lambda>path. False),
           foreign_key_message = ''violates foreign key constraint''\<rparr>"

text \<open>
  The same with a disk that fills up after the first byte of a write; and with a
  remove that fails after it has removed the file of version 1.0.0.
\<close>

definition disk_full :: environment where
  "disk_full = org1\<lparr>write_error := Some ''ENOSPC: no space left on device'',
                    written := Some 1\<rparr>"

definition remove_fails :: environment where
  "remove_fails =
     org1\<lparr>rm_error := Some ''EACCES: permission denied'',
          rm_removed := (\<lambda>path. path = [''srv'', ''packages-storage'', ''com.acme.lib'',
                                          ''1.0.0'', ''package.tar.gz''])\<rparr>"

definition owner :: TokenPayload where
  "owner = \<lparr>userId = ''u1'', role = ''OWNER''\<rparr>"

definition newcomer :: TokenPayload where
  "newcomer = \<lparr>userId = ''u2'', role = ''OWNER''\<rparr>"

definition fresh :: system where
  "fresh = \<lparr>ledger = Map.empty, storage = Map.empty, packages = Map.empty,
            subscriptions = [], users_email = Map.empty, download_logs = [], sent = []\<rparr>"

text \<open>Two uploads at the same key, of one byte and then of two other bytes.\<close>

definition first_upload :: "response \<times> system" where
  "first_upload =
     upload_handler length_digest org1 owner ''com.acme.lib'' ''1.0.0'' ''lib'' None (Some [1]) fresh"

definition second_upload :: "response \<times> system" where
  "second_upload =
     upload_handler length_digest org1 owner ''com.acme.lib'' ''1.0.0'' ''lib'' None (Some [2, 3])
       (snd first_upload)"

text \<open>A second version of the package, uploaded after the first.\<close>

definition next_upload :: "response \<times> system" where
  "next_upload =
     upload_handler length_digest org1 owner ''com.acme.lib'' ''1.0.1'' ''lib'' None (Some [4, 5])
       (snd first_upload)"

text \<open>The package is discontinued after its one upload.\<close>

definition discontinued_package :: "response \<times> system" where
  "discontinued_package = delete_handler org1 ''com.acme.lib'' (snd first_upload)"

text \<open>The state after the first upload, with the release discontinued on the ledger.\<close>

definition retired_system :: system where
  "retired_system = (snd first_upload)\<lparr>ledger := retired_release\<rparr>"

section \<open>Properties of the chaincode\<close>

lemmas chaincode_defs =
  PublishRelease_def DiscontinueRelease_def ValidateRelease_def GetRelease_def getRelease_def
  ReleaseExists_def

lemma one_release_at:
  "one_release ''com.acme.lib:1.0.0'' =
     Some \<lparr>packageId = ''com.acme.lib'', version = ''1.0.0'', fileHash = ''a'',
            status = ''ACTIVE'', publisher = ''Org1MSP''\<rparr>"
  by (simp add: one_release_def chaincode_defs createKey_def Let_def)

lemma retired_release_at:
  "retired_release ''com.acme.lib:1.0.0'' =
     Some \<lparr>packageId = ''com.acme.lib'', version = ''1.0.0'', fileHash = ''a'',
            status = ''DISCONTINUED'', publisher = ''Org1MSP''\<rparr>"
  by (simp add: retired_release_def one_release_def chaincode_defs createKey_def Let_def)

lemma retired_release_eq:
  "retired_release =
     one_release(''com.acme.lib:1.0.0'' \<mapsto>
       \<lparr>packageId = ''com.acme.lib'', version = ''1.0.0'', fileHash = ''a'',
        status = ''DISCONTINUED'', publisher = ''Org1MSP''\<rparr>)"
  by (simp add: retired_release_def one_release_def chaincode_defs createKey_def Let_def)

lemma reachable_one_release: "reachable one_release"
  unfolding one_release_def by (rule reachable.submitted [OF reachable.genesis])

lemma reachable_retired_release: "reachable retired_release"
  unfolding retired_release_def by (rule reachable.submitted [OF reachable_one_release])


lemma commit_statuses_ok: "statuses_ok ws \<Longrightarrow> statuses_ok (commit ws t)"
  by (cases t)
    (auto simp: statuses_ok_def PublishRelease_def DiscontinueRelease_def getRelease_def
      Let_def split: option.splits if_splits)

lemma reachable_statuses_ok: "reachable ws \<Longrightarrow> statuses_ok ws"
proof (induction rule: reachable.induct)
  case genesis
  show ?case by (simp add: statuses_ok_def)
next
  case (submitted ws t)
  then show ?case by (simp add: commit_statuses_ok)
qed

lemma commit_transition:
  "statuses_ok ws \<Longrightarrow> transition (status_at ws key) (status_at (commit ws t) key)"
  by (cases t)
    (auto simp: statuses_ok_def transition_def status_at_def PublishRelease_def
      DiscontinueRelease_def getRelease_def ReleaseExists_def Let_def split: option.splits)

lemma history_transitions:
  "statuses_ok ws \<Longrightarrow>
   successively transition (map (\<lambda>w. status_at w key) (history ws ts))"
proof (induction ts arbitrary: ws)
  case Nil
  show ?case by simp
next
  case (Cons t ts)
  have "statuses_ok (commit ws t)" using Cons.prems by (rule commit_statuses_ok)
  then have "successively transition (map (\<lambda>w. status_at w key) (history (commit ws t) ts))"
    by (rule Cons.IH)
  moreover have "transition (status_at ws key) (status_at (commit ws t) key)"
    using Cons.prems by (rule commit_transition)
  ultimately show ?case
    by (cases ts) (simp_all add: successively_Cons)
qed


subsection \<open>Publishing\<close>

text \<open>
  Claim C2. The world state is a map, so a key holds at most one release. Publishing
  never changes a release that is already there, under whatever key and with whatever
  status (\<open>release\<close> is arbitrary); and when the release is at the very key of the
  publish, the transaction throws \<^verbatim>\<open>RELEASE_ALREADY_EXISTS\<close> and the whole world
  state is as before.
\<close>

theorem publish_never_overwrites:
  "ws key = Some release \<Longrightarrow>
     snd (PublishRelease ws mspid pid ver hash) key = Some release \<and>
     (key = createKey pid ver \<longrightarrow>
        PublishRelease ws mspid pid ver hash =
          (Inl (ChaincodeException (''Release '' @ pid @ '' version '' @ ver @ '' already exists'')
                  RELEASE_ALREADY_EXISTS), ws))"
  by (auto simp: chaincode_defs Let_def)

text \<open>A second organisation publishes other bytes at the key of a discontinued release.\<close>

theorem publish_never_overwrites_witness:
  "retired_release (createKey ''com.acme.lib'' ''1.0.0'') =
      Some \<lparr>packageId = ''com.acme.lib'', version = ''1.0.0'', fileHash = ''a'',
             status = ''DISCONTINUED'', publisher = ''Org1MSP''\<rparr> \<and>
   PublishRelease retired_release ''Org2MSP'' ''com.acme.lib'' ''1.0.0'' ''bb'' =
      (Inl (ChaincodeException ''Release com.acme.lib version 1.0.0 already exists''
              RELEASE_ALREADY_EXISTS), retired_release)"
  using retired_release_at
    publish_never_overwrites [where ws = retired_release
      and key = "createKey ''com.acme.lib'' ''1.0.0''" and mspid = "''Org2MSP''"
      and pid = "''com.acme.lib''" and ver = "''1.0.0''" and hash = "''bb''"]
  by (simp add: createKey_def)

subsection \<open>Validation\<close>

text \<open>
  Claim C4. On every ledger that the contract can produce, \<open>ValidateRelease\<close> returns
  a boolean and never throws, and the boolean is true exactly when the key holds a
  release whose status is ACTIVE and whose hash is the candidate. (The source tests the
  status against DISCONTINUED; on these ledgers a status is ACTIVE or DISCONTINUED.)
\<close>

theorem validate_iff:
  assumes "reachable ws"
  shows "ValidateRelease ws pid ver hash =
           Inr (case ws (createKey pid ver) of
                  None \<Rightarrow> False
                | Some release \<Rightarrow> status release = ''ACTIVE'' \<and> fileHash release = hash)"
proof -
  have "statuses_ok ws" using assms by (rule reachable_statuses_ok)
  then show ?thesis
    by (auto simp: chaincode_defs statuses_ok_def Let_def split: option.splits)
qed

text \<open>The four cases: the recorded hash, another hash, no release, a discontinued release.\<close>

theorem validate_iff_witness:
  "reachable one_release \<and> reachable retired_release \<and>
   ValidateRelease one_release ''com.acme.lib'' ''1.0.0'' ''a'' = Inr True \<and>
   ValidateRelease one_release ''com.acme.lib'' ''1.0.0'' ''aa'' = Inr False \<and>
   ValidateRelease one_release ''com.acme.lib'' ''1.0.1'' ''a'' = Inr False \<and>
   ValidateRelease retired_release ''com.acme.lib'' ''1.0.0'' ''a'' = Inr False"
proof -
  have absent: "one_release ''com.acme.lib:1.0.1'' = None"
    by (simp add: one_release_def chaincode_defs createKey_def Let_def)
  show ?thesis
    using reachable_one_release reachable_retired_release
      validate_iff [OF reachable_one_release, of "''com.acme.lib''" "''1.0.0''" "''a''"]
      validate_iff [OF reachable_one_release, of "''com.acme.lib''" "''1.0.0''" "''aa''"]
      validate_iff [OF reachable_one_release, of "''com.acme.lib''" "''1.0.1''" "''a''"]
      validate_iff [OF reachable_retired_release, of "''com.acme.lib''" "''1.0.0''" "''a''"]
    by (simp add: one_release_at retired_release_at absent createKey_def)
qed

subsection \<open>The life cycle of a key\<close>

text \<open>
  Claim C5. Start from the empty ledger and submit any sequence of publish and
  discontinue transactions, with any arguments. At every key, each step of the
  resulting history either leaves the status as it is, or takes it from absent to
  ACTIVE, or from ACTIVE to DISCONTINUED: nothing leaves DISCONTINUED, and nothing
  goes from absent to DISCONTINUED.
\<close>

theorem status_lifecycle:
  "successively transition
     (map (\<lambda>w. status_at w (createKey pid ver)) (history Map.empty ts))"
  by (rule history_transitions) (simp add: statuses_ok_def)

subsection \<open>Discontinuing\<close>

text \<open>
  Claim C8. \<open>DiscontinueRelease\<close> throws \<^verbatim>\<open>RELEASE_NOT_FOUND\<close> at a key with no
  release and writes nothing. At a key with a release it stores and returns that
  release with the status DISCONTINUED; doing it again gives the same result and the
  same world state, and on a release that is already DISCONTINUED it returns the
  release and the world state unchanged.
\<close>

theorem discontinue_contract:
  "(ws (createKey pid ver) = None \<longrightarrow>
      DiscontinueRelease ws pid ver =
        (Inl (ChaincodeException (''Release not found for key: '' @ createKey pid ver)
                RELEASE_NOT_FOUND), ws)) \<and>
   (\<forall>release. ws (createKey pid ver) = Some release \<longrightarrow>
      DiscontinueRelease ws pid ver =
        (Inr (release\<lparr>status := ''DISCONTINUED''\<rparr>),
         ws(createKey pid ver \<mapsto> release\<lparr>status := ''DISCONTINUED''\<rparr>)) \<and>
      DiscontinueRelease (snd (DiscontinueRelease ws pid ver)) pid ver =
        DiscontinueRelease ws pid ver \<and>
      (status release = ''DISCONTINUED'' \<longrightarrow> DiscontinueRelease ws pid ver = (Inr release, ws)))"
  by (auto simp: DiscontinueRelease_def getRelease_def Let_def fun_upd_idem)

text \<open>On the empty ledger, on an active release, and on the release once discontinued.\<close>

theorem discontinue_contract_witness:
  "DiscontinueRelease Map.empty ''com.acme.lib'' ''1.0.0'' =
     (Inl (ChaincodeException ''Release not found for key: com.acme.lib:1.0.0''
             RELEASE_NOT_FOUND), Map.empty) \<and>
   DiscontinueRelease one_release ''com.acme.lib'' ''1.0.0'' =
     (Inr \<lparr>packageId = ''com.acme.lib'', version = ''1.0.0'', fileHash = ''a'',
           status = ''DISCONTINUED'', publisher = ''Org1MSP''\<rparr>, retired_release) \<and>
   DiscontinueRelease retired_release ''com.acme.lib'' ''1.0.0'' =
     (Inr \<lparr>packageId = ''com.acme.lib'', version = ''1.0.0'', fileHash = ''a'',
           status = ''DISCONTINUED'', publisher = ''Org1MSP''\<rparr>, retired_release)"
  using discontinue_contract [of Map.empty "''com.acme.lib''" "''1.0.0''"]
    discontinue_contract [of one_release "''com.acme.lib''" "''1.0.0''"]
    discontinue_contract [of retired_release "''com.acme.lib''" "''1.0.0''"]
  by (simp add: one_release_at retired_release_at retired_release_eq createKey_def)

text \<open>
  Claim C9. \<open>DiscontinueRelease\<close> on an existing release stores and returns a release
  with the packageId, version, fileHash and publisher it had. More generally no
  submitted transaction, publish or discontinue, with any arguments, changes one of
  these four fields of a release that exists: the hash of publish time stays.
\<close>

theorem discontinue_frame:
  assumes "ws (createKey pid ver) = Some release"
  shows "(case DiscontinueRelease ws pid ver of
            (Inl e, ws') \<Rightarrow> False
          | (Inr release', ws') \<Rightarrow>
              ws' (createKey pid ver) = Some release' \<and>
              packageId release' = packageId release \<and> version release' = version release \<and>
              fileHash release' = fileHash release \<and> publisher release' = publisher release) \<and>
         (\<forall>t. case commit ws t (createKey pid ver) of
                None \<Rightarrow> False
              | Some release' \<Rightarrow>
                  packageId release' = packageId release \<and> version release' = version release \<and>
                  fileHash release' = fileHash release \<and> publisher release' = publisher release)"
proof -
  have "case commit ws t (createKey pid ver) of
          None \<Rightarrow> False
        | Some release' \<Rightarrow>
            packageId release' = packageId release \<and> version release' = version release \<and>
            fileHash release' = fileHash release \<and> publisher release' = publisher release" for t
    using assms by (cases t) (auto simp: chaincode_defs Let_def split: option.splits)
  moreover have "case DiscontinueRelease ws pid ver of
            (Inl e, ws') \<Rightarrow> False
          | (Inr release', ws') \<Rightarrow>
              ws' (createKey pid ver) = Some release' \<and>
              packageId release' = packageId release \<and> version release' = version release \<and>
              fileHash release' = fileHash release \<and> publisher release' = publisher release"
    using assms by (simp add: chaincode_defs Let_def)
  ultimately show ?thesis by blast
qed

text \<open>The active release of \<open>one_release\<close>, discontinued: only the status differs.\<close>

theorem discontinue_frame_witness:
  "one_release (createKey ''com.acme.lib'' ''1.0.0'') =
     Some \<lparr>packageId = ''com.acme.lib'', version = ''1.0.0'', fileHash = ''a'',
            status = ''ACTIVE'', publisher = ''Org1MSP''\<rparr> \<and>
   map_option fileHash (commit one_release (Discontinue ''com.acme.lib'' ''1.0.0'')
                          (createKey ''com.acme.lib'' ''1.0.0'')) = Some ''a'' \<and>
   map_option fileHash (commit one_release (Publish ''Org2MSP'' ''com.acme.lib'' ''1.0.0'' ''bb'')
                          (createKey ''com.acme.lib'' ''1.0.0'')) = Some ''a''"
proof -
  have "\<forall>t. case commit one_release t (createKey ''com.acme.lib'' ''1.0.0'') of
              None \<Rightarrow> False
            | Some release' \<Rightarrow> fileHash release' = ''a''"
    using one_release_at
      discontinue_frame [where ws = one_release and pid = "''com.acme.lib''" and ver = "''1.0.0''"
        and release = "\<lparr>packageId = ''com.acme.lib'', version = ''1.0.0'', fileHash = ''a'',
                         status = ''ACTIVE'', publisher = ''Org1MSP''\<rparr>"]
    by (simp add: createKey_def del: commit.simps split: option.splits)
  then have kept: "map_option fileHash (commit one_release t ''com.acme.lib:1.0.0'') = Some ''a''"
    for t
    by (auto simp: createKey_def simp del: commit.simps split: option.splits dest: spec [of _ t])
  show ?thesis
    using one_release_at kept [of "Discontinue ''com.acme.lib'' ''1.0.0''"]
      kept [of "Publish ''Org2MSP'' ''com.acme.lib'' ''1.0.0'' ''bb''"]
    by (simp add: createKey_def del: commit.simps)
qed


section \<open>Properties of the gateway\<close>

lemmas storage_defs =
  saveFile_def getFile_def deletePackage_def calculateFileHash_def getFilePath_def
  getVersionDir_def

lemmas fabric_defs =
  fabric_publishRelease_def fabric_getRelease_def fabric_validateRelease_def
  fabric_discontinueRelease_def

lemmas model_defs =
  PackageModel_findById_def PackageModel_create_def PackageModel_delete_def
  getSubscribersByPackage_def DownloadLogModel_create_def

lemmas notify_defs = notifySubscribers_def notifyVersionUpdate_def notifyPackageDiscontinued_def

lemmas run_defs =
  upload_handler_def upload_publish_def download_handler_def validate_file_handler_def
  delete_handler_def download_failed_def storage_defs fabric_defs model_defs notify_defs
  chaincode_defs createKey_def length_digest_def chaincode_message_def org1_def owner_def
  fresh_def path_join_def enter_def under_def Let_def

subsection \<open>Paths\<close>

lemma segments_plain: "CHR ''/'' \<notin> set seg \<Longrightarrow> segments seg = [seg]"
  by (induction seg) auto

lemma path_join_append:
  "path_join dir (parts @ rest) = path_join (path_join dir parts) rest"
  by (simp add: path_join_def)

lemma path_join_plain:
  "plain seg \<Longrightarrow> path_join dir [seg] = dir @ [seg]"
  by (simp add: path_join_def plain_def segments_plain enter_def)

lemma getFilePath_plain:
  assumes "plain ver"
  shows "getFilePath env pid ver =
           path_join (storageDir env) [pid] @ [ver, ''package.tar.gz'']"
proof -
  have "getFilePath env pid ver =
          path_join (path_join (path_join (storageDir env) [pid]) [ver]) [''package.tar.gz'']"
    unfolding getFilePath_def
    using path_join_append [of "storageDir env" "[pid]" "[ver, ''package.tar.gz'']"]
      path_join_append [of "path_join (storageDir env) [pid]" "[ver]" "[''package.tar.gz'']"]
    by simp
  moreover have "plain ''package.tar.gz''" by (simp add: plain_def)
  ultimately show ?thesis using assms by (simp add: path_join_plain)
qed

lemma under_append: "under dir (dir @ rest)"
  by (simp add: under_def)

lemma path_1_0_0:
  "getFilePath org1 ''com.acme.lib'' ''1.0.0'' =
     [''srv'', ''packages-storage'', ''com.acme.lib'', ''1.0.0'', ''package.tar.gz'']"
  by (simp add: getFilePath_def path_join_def enter_def org1_def)

lemma path_1_0_1:
  "getFilePath org1 ''com.acme.lib'' ''1.0.1'' =
     [''srv'', ''packages-storage'', ''com.acme.lib'', ''1.0.1'', ''package.tar.gz'']"
  by (simp add: getFilePath_def path_join_def enter_def org1_def)

subsection \<open>What the notifier leaves alone\<close>

lemma send_each_frame:
  "ledger (send_each subject ids s) = ledger s \<and>
   storage (send_each subject ids s) = storage s \<and>
   packages (send_each subject ids s) = packages s"
  by (induction ids arbitrary: s) (auto split: option.splits)

lemma notifyVersionUpdate_frame:
  "ledger (notifyVersionUpdate pid ver s) = ledger s \<and>
   storage (notifyVersionUpdate pid ver s) = storage s \<and>
   packages (notifyVersionUpdate pid ver s) = packages s"
  by (simp add: notify_defs send_each_frame Let_def)

lemma notifyPackageDiscontinued_frame:
  "ledger (notifyPackageDiscontinued pid s) = ledger s \<and>
   storage (notifyPackageDiscontinued pid s) = storage s \<and>
   packages (notifyPackageDiscontinued pid s) = packages s"
  by (simp add: notify_defs send_each_frame)

subsection \<open>A successful upload\<close>

lemma upload_publish_created:
  assumes "upload_publish digest env pid ver buffer pkg s = (Json 201 b, s')"
  shows "ledger s' = (ledger s)(createKey pid ver \<mapsto>
            \<lparr>packageId = pid, version = ver, fileHash = digest buffer,
             status = ''ACTIVE'', publisher = mspId env\<rparr>) \<and>
         storage s' = (storage s)(getFilePath env pid ver \<mapsto> buffer) \<and>
         packages s' = packages s"
  using assms
  by (auto simp: upload_publish_def saveFile_def calculateFileHash_def fabric_defs
      PublishRelease_def Let_def notifyVersionUpdate_frame split: option.splits if_splits)

lemma upload_created:
  assumes "upload_handler digest env user pid ver nm descr (Some buffer) s = (Json 201 b, s')"
  shows "ledger s' (createKey pid ver) =
           Some \<lparr>packageId = pid, version = ver, fileHash = digest buffer,
                 status = ''ACTIVE'', publisher = mspId env\<rparr> \<and>
         storage s' (getFilePath env pid ver) = Some buffer \<and>
         (\<exists>pkg. packages s' pid = Some pkg \<and>
                (owner_id pkg = userId user \<or> role user = ''ADMIN''))"
  using assms
  by (auto simp: upload_handler_def model_defs split: option.splits if_splits
      dest!: upload_publish_created)

subsection \<open>The concrete runs, evaluated\<close>

lemma first_upload_eq:
  "first_upload =
     (Json 201 (PublishedBody ''com.acme.lib'' ''1.0.0'' ''lib'' ''a'' 1
                  ''/packages/com.acme.lib/1.0.0/download-file''),
      \<lparr>ledger = [''com.acme.lib:1.0.0'' \<mapsto>
                   \<lparr>packageId = ''com.acme.lib'', version = ''1.0.0'', fileHash = ''a'',
                    status = ''ACTIVE'', publisher = ''Org1MSP''\<rparr>],
       storage = [[''srv'', ''packages-storage'', ''com.acme.lib'', ''1.0.0'',
                   ''package.tar.gz''] \<mapsto> [1]],
       packages = [''com.acme.lib'' \<mapsto>
                     \<lparr>package_id = ''com.acme.lib'', owner_id = ''u1'', name = ''lib'',
                      description = None\<rparr>],
       subscriptions = [], users_email = Map.empty, download_logs = [], sent = []\<rparr>)"
  by (simp add: first_upload_def run_defs)

lemma first_upload_run:
  "upload_handler length_digest org1 owner ''com.acme.lib'' ''1.0.0'' ''lib'' None (Some [1]) fresh =
     (Json 201 (PublishedBody ''com.acme.lib'' ''1.0.0'' ''lib'' ''a'' 1
                  ''/packages/com.acme.lib/1.0.0/download-file''),
      snd first_upload)"
  using first_upload_eq by (simp add: first_upload_def)

lemma second_upload_eq:
  "second_upload =
     (Json 500 (ErrorBody ''Release com.acme.lib version 1.0.0 already exists''),
      \<lparr>ledger = [''com.acme.lib:1.0.0'' \<mapsto>
                   \<lparr>packageId = ''com.acme.lib'', version = ''1.0.0'', fileHash = ''a'',
                    status = ''ACTIVE'', publisher = ''Org1MSP''\<rparr>],
       storage = [[''srv'', ''packages-storage'', ''com.acme.lib'', ''1.0.0'',
                   ''package.tar.gz''] \<mapsto> [2, 3]],
       packages = [''com.acme.lib'' \<mapsto>
                     \<lparr>package_id = ''com.acme.lib'', owner_id = ''u1'', name = ''lib'',
                      description = None\<rparr>],
       subscriptions = [], users_email = Map.empty, download_logs = [], sent = []\<rparr>)"
  by (simp add: second_upload_def first_upload_eq run_defs)

lemma next_upload_eq:
  "next_upload =
     (Json 201 (PublishedBody ''com.acme.lib'' ''1.0.1'' ''lib'' ''aa'' 2
                  ''/packages/com.acme.lib/1.0.1/download-file''),
      \<lparr>ledger = [''com.acme.lib:1.0.0'' \<mapsto>
                   \<lparr>packageId = ''com.acme.lib'', version = ''1.0.0'', fileHash = ''a'',
                    status = ''ACTIVE'', publisher = ''Org1MSP''\<rparr>,
                 ''com.acme.lib:1.0.1'' \<mapsto>
                   \<lparr>packageId = ''com.acme.lib'', version = ''1.0.1'', fileHash = ''aa'',
                    status = ''ACTIVE'', publisher = ''Org1MSP''\<rparr>],
       storage = [[''srv'', ''packages-storage'', ''com.acme.lib'', ''1.0.0'',
                   ''package.tar.gz''] \<mapsto> [1],
                  [''srv'', ''packages-storage'', ''com.acme.lib'', ''1.0.1'',
                   ''package.tar.gz''] \<mapsto> [4, 5]],
       packages = [''com.acme.lib'' \<mapsto>
                     \<lparr>package_id = ''com.acme.lib'', owner_id = ''u1'', name = ''lib'',
                      description = None\<rparr>],
       subscriptions = [], users_email = Map.empty, download_logs = [], sent = []\<rparr>)"
  by (simp add: next_upload_def first_upload_eq run_defs)

lemma discontinued_package_eq:
  "discontinued_package =
     (Json 200 (MessageBody ''Package discontinued successfully''),
      \<lparr>ledger = [''com.acme.lib:1.0.0'' \<mapsto>
                   \<lparr>packageId = ''com.acme.lib'', version = ''1.0.0'', fileHash = ''a'',
                    status = ''ACTIVE'', publisher = ''Org1MSP''\<rparr>],
       storage = Map.empty,
       packages = Map.empty,
       subscriptions = [], users_email = Map.empty, download_logs = [], sent = []\<rparr>)"
  by (simp add: discontinued_package_def first_upload_eq run_defs fun_eq_iff)

subsection \<open>Publishing twice at one key\<close>

text \<open>
  Claim C1, as stated, fails on the run \<open>first_upload\<close>, \<open>second_upload\<close>: the second
  upload is rejected by the ledger and the recorded hash is still that of the first
  upload's byte, but the store now holds the two bytes of the second upload, not the
  byte of the first, and their digest is not the recorded one.
\<close>

theorem second_upload_overwrites_artifact:
  "fst second_upload = Json 500 (ErrorBody ''Release com.acme.lib version 1.0.0 already exists'') \<and>
   map_option fileHash (ledger (snd second_upload) (createKey ''com.acme.lib'' ''1.0.0'')) =
     Some (length_digest [1]) \<and>
   storage (snd first_upload) (getFilePath org1 ''com.acme.lib'' ''1.0.0'') = Some [1] \<and>
   storage (snd second_upload) (getFilePath org1 ''com.acme.lib'' ''1.0.0'') = Some [2, 3] \<and>
   storage (snd second_upload) (getFilePath org1 ''com.acme.lib'' ''1.0.0'') \<noteq> Some [1] \<and>
   length_digest [2, 3] \<noteq> length_digest [1]"
  by (simp add: second_upload_eq first_upload_eq path_1_0_0 createKey_def length_digest_def)

text \<open>
  Claim C1, amended. After a successful upload of \<open>bytes1\<close> at (pid, ver), a second
  upload at the same key by the same user, of any \<open>bytes2\<close> and with a file system
  that takes the write, is answered 500 with the message of the ledger's
  \<^verbatim>\<open>RELEASE_ALREADY_EXISTS\<close> rejection. The ledger is as before, so the recorded
  hash is still the digest of \<open>bytes1\<close>. The file written by the second upload is not
  removed: the only change of state is that the store holds \<open>bytes2\<close> at the path
  of the key.
\<close>

theorem second_upload_not_rolled_back:
  assumes "upload_handler digest env1 user pid ver nm1 descr1 (Some bytes1) s0 = (Json 201 b, s1)"
    and "write_error env2 = None"
  shows "upload_handler digest env2 user pid ver nm2 descr2 (Some bytes2) s1 =
           (Json 500 (ErrorBody (error_message env2
              (ChaincodeException (''Release '' @ pid @ '' version '' @ ver @ '' already exists'')
                 RELEASE_ALREADY_EXISTS))),
            s1\<lparr>storage := (storage s1)(getFilePath env2 pid ver \<mapsto> bytes2)\<rparr>) \<and>
         map_option fileHash (ledger s1 (createKey pid ver)) = Some (digest bytes1)"
  using upload_created [OF assms(1)] assms(2)
  by (auto simp: upload_handler_def upload_publish_def model_defs saveFile_def
      calculateFileHash_def fabric_defs chaincode_defs Let_def)

theorem second_upload_not_rolled_back_witness:
  "write_error org1 = None \<and>
   second_upload =
     (Json 500 (ErrorBody ''Release com.acme.lib version 1.0.0 already exists''),
      (snd first_upload)\<lparr>storage := (storage (snd first_upload))
                                        (getFilePath org1 ''com.acme.lib'' ''1.0.0'' \<mapsto> [2, 3])\<rparr>) \<and>
   map_option fileHash (ledger (snd first_upload) (createKey ''com.acme.lib'' ''1.0.0'')) = Some ''a''"
proof -
  have w: "write_error org1 = None" by (simp add: org1_def)
  show ?thesis
    using w second_upload_not_rolled_back [OF first_upload_run w, of "''lib''" None "[2, 3]"]
    by (simp add: second_upload_def length_digest_def org1_def chaincode_message_def)
qed

text \<open>
  Claim C10. When the package has no row, the upload handler creates one for the
  user before it saves the file. If saving the file then fails, the handler answers
  500 with the error's message and the table of packages it leaves has the new row,
  whatever the failed write did to the file. If the file is saved and the ledger
  rejects the publish because the key is taken, the handler answers 500 with the
  rejection's message, and the state it leaves has the new row and the written file:
  nothing removes either.
\<close>

theorem upload_failure_keeps_package_row:
  assumes "packages s pid = None"
  shows "(\<forall>msg. write_error env = Some msg \<longrightarrow>
            fst (upload_handler digest env user pid ver nm descr (Some bytes) s) =
              Json 500 (ErrorBody (''Failed to save file: '' @ msg)) \<and>
            packages (snd (upload_handler digest env user pid ver nm descr (Some bytes) s)) =
              (packages s)(pid \<mapsto>
                 \<lparr>package_id = pid, owner_id = userId user, name = nm, description = descr\<rparr>)) \<and>
         (\<forall>release. write_error env = None \<and> ledger s (createKey pid ver) = Some release \<longrightarrow>
            upload_handler digest env user pid ver nm descr (Some bytes) s =
              (Json 500 (ErrorBody (error_message env
                 (ChaincodeException (''Release '' @ pid @ '' version '' @ ver @ '' already exists'')
                    RELEASE_ALREADY_EXISTS))),
               s\<lparr>packages := (packages s)(pid \<mapsto>
                    \<lparr>package_id = pid, owner_id = userId user, name = nm, description = descr\<rparr>),
                 storage := (storage s)(getFilePath env pid ver \<mapsto> bytes)\<rparr>))"
  using assms
  by (auto simp: upload_handler_def upload_publish_def model_defs saveFile_def
      calculateFileHash_def fabric_defs chaincode_defs Let_def split: option.splits)

text \<open>
  A first upload of three bytes on a disk that is full after one byte: the row is
  there and so is a file of one byte. And, after the package was discontinued, an
  upload of the same version by another user.
\<close>

theorem upload_failure_keeps_package_row_witness:
  "packages fresh ''com.acme.lib'' = None \<and>
   packages (snd discontinued_package) ''com.acme.lib'' = None \<and>
   fst (upload_handler length_digest disk_full owner ''com.acme.lib'' ''1.0.0'' ''lib'' None
          (Some [7, 8, 9]) fresh) =
     Json 500 (ErrorBody ''Failed to save file: ENOSPC: no space left on device'') \<and>
   packages (snd (upload_handler length_digest disk_full owner ''com.acme.lib'' ''1.0.0'' ''lib'' None
                    (Some [7, 8, 9]) fresh)) ''com.acme.lib'' =
     Some \<lparr>package_id = ''com.acme.lib'', owner_id = ''u1'', name = ''lib'', description = None\<rparr> \<and>
   storage (snd (upload_handler length_digest disk_full owner ''com.acme.lib'' ''1.0.0'' ''lib'' None
                   (Some [7, 8, 9]) fresh)) (getFilePath disk_full ''com.acme.lib'' ''1.0.0'') =
     Some [7] \<and>
   fst (upload_handler length_digest org1 newcomer ''com.acme.lib'' ''1.0.0'' ''mine'' None
          (Some [2, 3]) (snd discontinued_package)) =
     Json 500 (ErrorBody ''Release com.acme.lib version 1.0.0 already exists'') \<and>
   packages (snd (upload_handler length_digest org1 newcomer ''com.acme.lib'' ''1.0.0'' ''mine'' None
                    (Some [2, 3]) (snd discontinued_package))) ''com.acme.lib'' =
     Some \<lparr>package_id = ''com.acme.lib'', owner_id = ''u2'', name = ''mine'', description = None\<rparr>"
proof -
  have p1: "packages fresh ''com.acme.lib'' = None" by (simp add: fresh_def)
  have p2: "packages (snd discontinued_package) ''com.acme.lib'' = None"
    by (simp add: discontinued_package_eq)
  have e1: "write_error disk_full = Some ''ENOSPC: no space left on device''"
    by (simp add: disk_full_def)
  have e2: "write_error org1 = None" "error_message org1 = chaincode_message"
    by (simp_all add: org1_def)
  have l2: "ledger (snd discontinued_package) (createKey ''com.acme.lib'' ''1.0.0'') =
      Some \<lparr>packageId = ''com.acme.lib'', version = ''1.0.0'', fileHash = ''a'',
             status = ''ACTIVE'', publisher = ''Org1MSP''\<rparr>"
    by (simp add: discontinued_package_eq createKey_def)
  have partial: "storage (snd (upload_handler length_digest disk_full owner ''com.acme.lib''
                   ''1.0.0'' ''lib'' None (Some [7, 8, 9]) fresh))
                   (getFilePath disk_full ''com.acme.lib'' ''1.0.0'') = Some [7]"
    by (simp add: disk_full_def run_defs)
  show ?thesis
    using p1 p2 partial
      upload_failure_keeps_package_row [where env = disk_full and digest = length_digest
        and user = owner and ver = "''1.0.0''" and nm = "''lib''" and descr = None
        and bytes = "[7, 8, 9]", OF p1]
      upload_failure_keeps_package_row [where env = org1 and digest = length_digest
        and user = newcomer and ver = "''1.0.0''" and nm = "''mine''" and descr = None
        and bytes = "[2, 3]", OF p2]
      e1 e2 l2
    by (simp add: owner_def newcomer_def chaincode_message_def fresh_def)
qed

subsection \<open>Validating a file\<close>

text \<open>
  Claim C6. After an upload of \<open>bytes\<close> at (pid, ver) that succeeded (201), the
  validation route answers the same bytes with valid = true, and any copy whose
  digest differs with valid = false, the expected hash being the digest of \<open>bytes\<close>
  and the actual hash the digest of the copy, which differ. Both answers are the
  structured result with status 200; the state is left as it is.
\<close>

theorem validate_after_upload:
  assumes "upload_handler digest env user pid ver nm descr (Some bytes) s = (Json 201 b, s')"
  shows "validate_file_handler digest env' pid ver (Some bytes) s' =
           (Json 200 (ValidationBody True (digest bytes) (digest bytes)), s') \<and>
         (\<forall>copy. digest copy \<noteq> digest bytes \<longrightarrow>
            validate_file_handler digest env' pid ver (Some copy) s' =
              (Json 200 (ValidationBody False (digest bytes) (digest copy)), s'))"
  using upload_created [OF assms]
  by (auto simp: validate_file_handler_def fabric_defs chaincode_defs calculateFileHash_def Let_def)

text \<open>The uploaded byte, and the same byte followed by an \<^verbatim>\<open>x\<close>.\<close>

theorem validate_after_upload_witness:
  "fst first_upload =
     Json 201 (PublishedBody ''com.acme.lib'' ''1.0.0'' ''lib'' ''a'' 1
                 ''/packages/com.acme.lib/1.0.0/download-file'') \<and>
   validate_file_handler length_digest org1 ''com.acme.lib'' ''1.0.0'' (Some [1]) (snd first_upload) =
     (Json 200 (ValidationBody True ''a'' ''a''), snd first_upload) \<and>
   validate_file_handler length_digest org1 ''com.acme.lib'' ''1.0.0'' (Some [1, 120])
       (snd first_upload) =
     (Json 200 (ValidationBody False ''a'' ''aa''), snd first_upload)"
proof -
  note after = validate_after_upload [OF first_upload_run, of org1]
  have same: "validate_file_handler length_digest org1 ''com.acme.lib'' ''1.0.0'' (Some [1])
                (snd first_upload) = (Json 200 (ValidationBody True ''a'' ''a''), snd first_upload)"
    using after by (simp add: length_digest_def)
  have "length_digest [1, 120] \<noteq> length_digest [1]"
    by (simp add: length_digest_def)
  with after have "validate_file_handler length_digest org1 ''com.acme.lib'' ''1.0.0''
                     (Some [1, 120]) (snd first_upload) =
                   (Json 200 (ValidationBody False (length_digest [1]) (length_digest [1, 120])),
                    snd first_upload)"
    by blast
  then show ?thesis using same by (simp add: first_upload_eq length_digest_def)
qed

subsection \<open>Downloading\<close>

text \<open>
  Claim C7. When the ledger holds a release at the key and its status is not ACTIVE,
  the download route answers 403, "Version ... is" and the status, sends no file and
  logs nothing, whatever the store holds at the key. In particular, once
  \<^verbatim>\<open>discontinueRelease\<close> has gone through on an existing release, which leaves the
  store as it was, the download at that key is answered 403.
\<close>

theorem download_requires_active:
  assumes "ledger s (createKey pid ver) = Some release"
  shows "(status release \<noteq> ''ACTIVE'' \<longrightarrow>
            download_handler env user ip pid ver s =
              (Json 403 (ErrorBody (''Version '' @ ver @ '' is '' @ status release)), s)) \<and>
         (case fabric_discontinueRelease env' pid ver s of
            (Inl msg, s') \<Rightarrow> False
          | (Inr u, s') \<Rightarrow>
              storage s' = storage s \<and>
              download_handler env user ip pid ver s' =
                (Json 403 (ErrorBody (''Version '' @ ver @ '' is DISCONTINUED'')), s'))"
  using assms
  by (auto simp: download_handler_def fabric_defs chaincode_defs Let_def)

text \<open>
  The file of the first upload is in the store throughout: it is sent while the
  release is ACTIVE and refused once the release is DISCONTINUED.
\<close>

theorem download_requires_active_witness:
  "storage retired_system (getFilePath org1 ''com.acme.lib'' ''1.0.0'') = Some [1] \<and>
   map_option status (ledger retired_system (createKey ''com.acme.lib'' ''1.0.0'')) =
     Some ''DISCONTINUED'' \<and>
   download_handler org1 None None ''com.acme.lib'' ''1.0.0'' retired_system =
     (Json 403 (ErrorBody ''Version 1.0.0 is DISCONTINUED''), retired_system) \<and>
   download_handler org1 None None ''com.acme.lib'' ''1.0.0'' (snd first_upload) =
     (SendFile [1],
      (snd first_upload)\<lparr>download_logs := [(''com.acme.lib'', ''1.0.0'', None, None)]\<rparr>) \<and>
   fabric_discontinueRelease org1 ''com.acme.lib'' ''1.0.0'' (snd first_upload) =
     (Inr (), retired_system)"
proof -
  have at: "ledger retired_system (createKey ''com.acme.lib'' ''1.0.0'') =
      Some \<lparr>packageId = ''com.acme.lib'', version = ''1.0.0'', fileHash = ''a'',
             status = ''DISCONTINUED'', publisher = ''Org1MSP''\<rparr>"
    by (simp add: retired_system_def retired_release_at createKey_def)
  have before: "ledger (snd first_upload) (createKey ''com.acme.lib'' ''1.0.0'') =
      Some \<lparr>packageId = ''com.acme.lib'', version = ''1.0.0'', fileHash = ''a'',
             status = ''ACTIVE'', publisher = ''Org1MSP''\<rparr>"
    by (simp add: first_upload_eq createKey_def)
  have disc: "fabric_discontinueRelease org1 ''com.acme.lib'' ''1.0.0'' (snd first_upload) =
                (Inr (), retired_system)"
    by (simp add: retired_system_def retired_release_def one_release_def first_upload_eq
        fabric_defs chaincode_defs createKey_def Let_def)
  have sent: "download_handler org1 None None ''com.acme.lib'' ''1.0.0'' (snd first_upload) =
     (SendFile [1],
      (snd first_upload)\<lparr>download_logs := [(''com.acme.lib'', ''1.0.0'', None, None)]\<rparr>)"
    by (simp add: first_upload_eq run_defs)
  show ?thesis
    using download_requires_active [OF at, of org1 None None org1]
      download_requires_active [OF before, of org1 None None org1] at disc sent
    by (simp add: retired_system_def first_upload_eq path_1_0_0)
qed

subsection \<open>Discontinuing a package\<close>

text \<open>
  Claim C3, as stated, fails on the run \<open>discontinued_package\<close>: the package of the
  first upload is discontinued, the handler answers that it succeeded, and the one
  release of the package is still ACTIVE on the ledger, not DISCONTINUED.
\<close>

theorem discontinued_package_stays_active:
  "fst discontinued_package = Json 200 (MessageBody ''Package discontinued successfully'') \<and>
   status_at (ledger (snd discontinued_package)) (createKey ''com.acme.lib'' ''1.0.0'') =
     Some ''ACTIVE'' \<and>
   status_at (ledger (snd discontinued_package)) (createKey ''com.acme.lib'' ''1.0.0'') \<noteq>
     Some ''DISCONTINUED''"
  by (simp add: discontinued_package_eq createKey_def status_at_def)

text \<open>
  Claim C3, amended. The handler of \<^verbatim>\<open>DELETE /packages/:packageId\<close> removes the
  package's row and then removes the package's directory. It never writes to the
  ledger: every release keeps the status it had, whether the removal of the files
  fails or not. When the removal goes through, the answer is 200 and no file is left
  in or below the package's directory, so none at the path of any version that is a
  plain name. When the removal fails, the answer is 500 with the error and the row is
  gone all the same; of the files nothing is said but that none is new (some of the
  package's files may be gone and others still there).
\<close>

theorem delete_leaves_ledger:
  "ledger (snd (delete_handler env pid s)) = ledger s \<and>
   packages (snd (delete_handler env pid s)) pid = None \<and>
   (rm_error env = None \<longrightarrow>
      fst (delete_handler env pid s) = Json 200 (MessageBody ''Package discontinued successfully'') \<and>
      (\<forall>path. under (path_join (storageDir env) [pid]) path \<longrightarrow>
         storage (snd (delete_handler env pid s)) path = None) \<and>
      (\<forall>ver. plain ver \<longrightarrow>
         storage (snd (delete_handler env pid s)) (getFilePath env pid ver) = None)) \<and>
   (\<forall>msg. rm_error env = Some msg \<longrightarrow>
      fst (delete_handler env pid s) = Json 500 (ErrorBody (''Failed to delete package: '' @ msg)) \<and>
      storage (snd (delete_handler env pid s)) \<subseteq>\<^sub>m storage s)"
proof -
  have plain_under: "under (path_join (storageDir env) [pid]) (getFilePath env pid ver)"
    if "plain ver" for ver
    using that by (simp add: getFilePath_plain under_append)
  show ?thesis
    using plain_under
    by (auto simp: delete_handler_def deletePackage_def PackageModel_delete_def Let_def
        notifyPackageDiscontinued_frame map_le_def split: option.splits if_splits)
qed

text \<open>
  The package with its two versions, discontinued. With a file system in good order
  both files go; with a remove that fails after the first file, the second is still
  there. The two releases are on the ledger either way, both ACTIVE.
\<close>

theorem delete_leaves_ledger_witness:
  "rm_error org1 = None \<and> rm_error remove_fails = Some ''EACCES: permission denied'' \<and>
   plain ''1.0.0'' \<and> plain ''1.0.1'' \<and>
   fst (delete_handler org1 ''com.acme.lib'' (snd next_upload)) =
     Json 200 (MessageBody ''Package discontinued successfully'') \<and>
   storage (snd (delete_handler org1 ''com.acme.lib'' (snd next_upload)))
     (getFilePath org1 ''com.acme.lib'' ''1.0.0'') = None \<and>
   storage (snd (delete_handler org1 ''com.acme.lib'' (snd next_upload)))
     (getFilePath org1 ''com.acme.lib'' ''1.0.1'') = None \<and>
   delete_handler remove_fails ''com.acme.lib'' (snd next_upload) =
     (Json 500 (ErrorBody ''Failed to delete package: EACCES: permission denied''),
      (snd next_upload)
        \<lparr>storage := [getFilePath org1 ''com.acme.lib'' ''1.0.1'' \<mapsto> [4, 5]],
         packages := Map.empty\<rparr>) \<and>
   map_option status (ledger (snd (delete_handler remove_fails ''com.acme.lib'' (snd next_upload)))
                        (createKey ''com.acme.lib'' ''1.0.0'')) = Some ''ACTIVE'' \<and>
   map_option status (ledger (snd (delete_handler org1 ''com.acme.lib'' (snd next_upload)))
                        (createKey ''com.acme.lib'' ''1.0.1'')) = Some ''ACTIVE''"
proof -
  have e1: "rm_error org1 = None" by (simp add: org1_def)
  have e2: "rm_error remove_fails = Some ''EACCES: permission denied''"
    by (simp add: remove_fails_def org1_def)
  have pl: "plain ''1.0.0''" "plain ''1.0.1''" by (simp_all add: plain_def)
  have d2: "delete_handler remove_fails ''com.acme.lib'' (snd next_upload) =
     (Json 500 (ErrorBody ''Failed to delete package: EACCES: permission denied''),
      (snd next_upload)
        \<lparr>storage := [getFilePath org1 ''com.acme.lib'' ''1.0.1'' \<mapsto> [4, 5]],
         packages := Map.empty\<rparr>)"
    by (simp add: next_upload_eq remove_fails_def run_defs fun_eq_iff)
  have l: "map_option status (ledger (snd next_upload) (createKey ''com.acme.lib'' ''1.0.0'')) =
             Some ''ACTIVE''"
    "map_option status (ledger (snd next_upload) (createKey ''com.acme.lib'' ''1.0.1'')) =
             Some ''ACTIVE''"
    by (simp_all add: next_upload_eq createKey_def)
  note ok = delete_leaves_ledger [of org1 "''com.acme.lib''" "snd next_upload"]
  note failed = delete_leaves_ledger [of remove_fails "''com.acme.lib''" "snd next_upload"]
  show ?thesis
    using e1 e2 pl d2 l ok failed by simp
qed

end
